theory Spec2Isabelle
  imports Complex_Main "HOL-Library.Multiset"
begin

section \<open>Data model\<close>

text \<open>
  The backend stores four tables through an ORM (\<^verbatim>\<open>app/models/fire_risk.py\<close>) and reads the
  requesting user (\<^verbatim>\<open>app/models/user.py\<close>). Python ints are modelled as \<^typ>\<open>int\<close>, and a
  \<^verbatim>\<open>datetime\<close> as the number of microseconds since the epoch, an \<^typ>\<open>int\<close>. Coordinates,
  thresholds and scores are \<^typ>\<open>real\<close> numbers (no rounding); the risk level of a zone,
  which the schema validates, is a float that may be NaN. A nullable column is an
  \<^typ>\<open>'a option\<close>. Field names are those of the source, prefixed where two tables share a
  name.
\<close>

type_synonym datetime = int

text \<open>
  A Python float: a number or NaN. (The infinities compare like numbers beyond every bound
  and are left out.)
\<close>

datatype pyfloat = Finite real | NaN

text \<open>
  Python's \<^verbatim>\<open><\<close> and \<^verbatim>\<open>>\<close> on floats: every comparison with NaN is false.
\<close>

fun py_lt :: "pyfloat \<Rightarrow> pyfloat \<Rightarrow> bool" where
  "py_lt (Finite a) (Finite b) = (a < b)"
| "py_lt _ _ = False"

fun py_gt :: "pyfloat \<Rightarrow> pyfloat \<Rightarrow> bool" where
  "py_gt (Finite a) (Finite b) = (a > b)"
| "py_gt _ _ = False"

text \<open>
  The order of the storage engine on a float column, used by SQL comparisons and by
  \<^verbatim>\<open>ORDER BY\<close>: numbers in their order, and NaN equal to itself and above every number
  (PostgreSQL). SQLite keeps NULL in place of NaN, so its tables hold no NaN; a row with a
  NULL risk level is not represented.
\<close>

instantiation pyfloat :: linorder
begin

fun less_eq_pyfloat :: "pyfloat \<Rightarrow> pyfloat \<Rightarrow> bool" where
  "less_eq_pyfloat (Finite a) (Finite b) = (a \<le> b)"
| "less_eq_pyfloat _ NaN = True"
| "less_eq_pyfloat NaN (Finite b) = False"

definition less_pyfloat :: "pyfloat \<Rightarrow> pyfloat \<Rightarrow> bool" where
  "less_pyfloat x y = (x \<le> y \<and> \<not> y \<le> x)"

instance
proof
  fix x y z :: pyfloat
  show "(x < y) = (x \<le> y \<and> \<not> y \<le> x)" by (simp add: less_pyfloat_def)
  show "x \<le> x" by (cases x) simp_all
  show "x \<le> y \<Longrightarrow> y \<le> z \<Longrightarrow> x \<le> z" by (cases x; cases y; cases z) simp_all
  show "x \<le> y \<Longrightarrow> y \<le> x \<Longrightarrow> x = y" by (cases x; cases y) simp_all
  show "x \<le> y \<or> y \<le> x" by (cases x; cases y) auto
qed

end

text \<open>\<^verbatim>\<open>timedelta(hours=1)\<close>, in microseconds.\<close>

definition one_hour :: int where
  "one_hour = 3600000000"

text \<open>\<^verbatim>\<open>schemas.FireRiskZoneCreate\<close>: the attributes of a zone before it is stored.\<close>

record FireRiskZoneCreate =
  in_region_name :: string
  in_latitude :: real
  in_longitude :: real
  in_risk_level :: pyfloat
  in_risk_category :: string
  in_temperature :: "real option"
  in_humidity :: "real option"
  in_wind_speed :: "real option"
  in_precipitation :: "real option"
  in_vegetation_density :: "real option"
  in_vegetation_type :: "string option"
  in_soil_moisture :: "real option"
  in_prediction_model :: string
  in_confidence_score :: real

text \<open>\<^verbatim>\<open>models.FireRiskZone\<close>, a row of table \<^verbatim>\<open>fire_risk_zones\<close>.\<close>

record FireRiskZone =
  zone_id :: int
  region_name :: string
  latitude :: real
  longitude :: real
  risk_level :: pyfloat
  risk_category :: string
  timestamp :: datetime
  temperature :: "real option"
  humidity :: "real option"
  wind_speed :: "real option"
  precipitation :: "real option"
  vegetation_density :: "real option"
  vegetation_type :: "string option"
  soil_moisture :: "real option"
  prediction_model :: string
  confidence_score :: real

text \<open>\<^verbatim>\<open>models.FireIncident\<close>, a row of table \<^verbatim>\<open>fire_incidents\<close>.\<close>

record FireIncident =
  incident_id :: int
  risk_zone_id :: int
  incident_latitude :: real
  incident_longitude :: real
  start_date :: datetime
  end_date :: "datetime option"
  severity :: string
  area_affected :: "real option"
  status :: string
  source :: string
  description :: "string option"

text \<open>\<^verbatim>\<open>models.SavedRegion\<close>, a row of table \<^verbatim>\<open>saved_regions\<close>.\<close>

record SavedRegion =
  region_id :: int
  region_user_id :: int
  saved_region_name :: string
  region_latitude :: real
  region_longitude :: real
  created_at :: datetime
  region_alert_threshold :: "real option"

text \<open>\<^verbatim>\<open>models.Alert\<close>, a row of table \<^verbatim>\<open>alerts\<close>.\<close>

record Alert =
  alert_id :: int
  alert_user_id :: int
  alert_risk_zone_id :: int
  alert_time :: datetime
  alert_risk_level :: real
  message :: string
  is_read :: bool
  is_sent_email :: bool
  is_sent_sms :: bool

text \<open>The fields of \<^verbatim>\<open>models.User\<close> that the operations below read.\<close>

record User =
  user_id :: int
  is_superuser :: bool
  alert_threshold :: "real option"

text \<open>
  The storage session \<^verbatim>\<open>db\<close>: each table is the list of its rows, in the order they were
  inserted.
\<close>

record Session =
  fire_risk_zones :: "FireRiskZone list"
  fire_incidents :: "FireIncident list"
  saved_regions :: "SavedRegion list"
  alerts :: "Alert list"

text \<open>
  Failures. A pydantic \<^verbatim>\<open>ValidationError\<close>, and FastAPI's \<^verbatim>\<open>HTTPException\<close> with its status
  code: 404 is the not-found failure, 403 the authorization failure.
\<close>

datatype error = ValidationError | HTTPException nat

section \<open>Query combinators\<close>

text \<open>
  The ORM query methods the service uses, over a table as a list. \<^verbatim>\<open>order_by(c.desc())\<close> is
  an ascending sort on the key, reversed; \<^verbatim>\<open>offset\<close> and \<^verbatim>\<open>limit\<close> take natural numbers (a negative value
  is handed to the storage engine, whose answer is not part of this code); \<^verbatim>\<open>first()\<close>
  returns the first row or \<^verbatim>\<open>None\<close>.
\<close>

definition query_order_by_desc :: "('a \<Rightarrow> 'k::linorder) \<Rightarrow> 'a list \<Rightarrow> 'a list" where
  "query_order_by_desc key rows = rev (sort_key key rows)"

definition query_offset :: "nat \<Rightarrow> 'a list \<Rightarrow> 'a list" where
  "query_offset skip rows = drop skip rows"

definition query_limit :: "nat \<Rightarrow> 'a list \<Rightarrow> 'a list" where
  "query_limit n rows = take n rows"

definition query_first :: "'a list \<Rightarrow> 'a option" where
  "query_first rows = (case rows of [] \<Rightarrow> None | r # _ \<Rightarrow> Some r)"

text \<open>SQL \<^verbatim>\<open>x BETWEEN lo AND hi\<close>: both ends included.\<close>

definition between :: "real \<Rightarrow> real \<Rightarrow> real \<Rightarrow> bool" where
  "between x lo hi = (lo \<le> x \<and> x \<le> hi)"

text \<open>
  SQL \<^verbatim>\<open>LIKE\<close>: in the pattern \<^verbatim>\<open>%\<close> stands for any run of characters and \<^verbatim>\<open>_\<close> for any one
  character; every other character stands for itself. \<^verbatim>\<open>ilike\<close> compares without regard
  to the case of ASCII letters. An escape character (PostgreSQL has one by default, SQLite
  has none) is not modelled.
\<close>

fun like_match :: "string \<Rightarrow> string \<Rightarrow> bool" where
  "like_match [] s = (s = [])"
| "like_match (p # ps) [] = (p = CHR ''%'' \<and> like_match ps [])"
| "like_match (p # ps) (c # cs) =
     (if p = CHR ''%'' then like_match ps (c # cs) \<or> like_match (p # ps) cs
      else (p = CHR ''_'' \<or> p = c) \<and> like_match ps cs)"

definition lower_char :: "char \<Rightarrow> char" where
  "lower_char c =
     (case map_of (zip ''ABCDEFGHIJKLMNOPQRSTUVWXYZ'' ''abcdefghijklmnopqrstuvwxyz'') c of
        None \<Rightarrow> c
      | Some l \<Rightarrow> l)"

definition ilike :: "string \<Rightarrow> string \<Rightarrow> bool" where
  "ilike column pattern = like_match (map lower_char pattern) (map lower_char column)"

text \<open>The pattern of the region filters, \<^verbatim>\<open>f"%{region_name}%"\<close>.\<close>

definition contains_pattern :: "string \<Rightarrow> string" where
  "contains_pattern name = ''%'' @ name @ ''%''"

text \<open>
  The primary key the storage engine gives a new row: one more than the largest key in the
  table.
\<close>

definition next_id :: "int list \<Rightarrow> int" where
  "next_id ids = fold max ids 0 + 1"

section \<open>Alert evaluator\<close>

text \<open>
  The condition of \<^verbatim>\<open>predict_fire_risk_zone\<close> (\<^verbatim>\<open>predictions.py\<close>, line 86):
  \<^verbatim>\<open>current_user.alert_threshold and risk_level >= current_user.alert_threshold\<close>.
  Python's \<^verbatim>\<open>and\<close> tests the truth value of the threshold first: \<^verbatim>\<open>None\<close> and \<^verbatim>\<open>0.0\<close> are
  both false.
\<close>

definition should_alert :: "real \<Rightarrow> real option \<Rightarrow> bool" where
  "should_alert r threshold =
     (case threshold of
        None \<Rightarrow> False
      | Some t \<Rightarrow> t \<noteq> 0 \<and> r \<ge> t)"

text \<open>\<^verbatim>\<open>create_alert_for_user\<close> (\<^verbatim>\<open>predictions.py\<close>, lines 182-203).\<close>

definition create_alert_for_user ::
  "Session \<Rightarrow> datetime \<Rightarrow> int \<Rightarrow> int \<Rightarrow> real \<Rightarrow> string \<Rightarrow> Alert \<times> Session" where
  "create_alert_for_user db now uid zid r msg =
     (let alert = \<lparr> alert_id = next_id (map alert_id (alerts db)),
                    alert_user_id = uid,
                    alert_risk_zone_id = zid,
                    alert_time = now,
                    alert_risk_level = r,
                    message = msg,
                    is_read = False,
                    is_sent_email = False,
                    is_sent_sms = False \<rparr>
      in (alert, db\<lparr> alerts := alerts db @ [alert] \<rparr>))"

section \<open>Zone repository\<close>

text \<open>
  The validators of \<^verbatim>\<open>FireRiskZoneBase\<close> (\<^verbatim>\<open>schemas/fire_risk.py\<close>, lines 23-34). A
  \<^verbatim>\<open>ValueError\<close> raised by a validator makes the construction of the schema object fail
  with a \<^verbatim>\<open>ValidationError\<close>.
\<close>

definition validate_risk_level :: "pyfloat \<Rightarrow> error + pyfloat" where
  "validate_risk_level v =
     (if py_lt v (Finite 0) \<or> py_gt v (Finite 1) then Inl ValidationError else Inr v)"

definition valid_categories :: "string list" where
  "valid_categories = [''Low'', ''Medium'', ''High'']"

definition validate_risk_category :: "string \<Rightarrow> error + string" where
  "validate_risk_category v =
     (if v \<notin> set valid_categories then Inl ValidationError else Inr v)"

text \<open>Construction of a \<^verbatim>\<open>FireRiskZoneCreate\<close> from its attributes: every validator runs.\<close>

definition validate_FireRiskZoneCreate :: "FireRiskZoneCreate \<Rightarrow> error + FireRiskZoneCreate" where
  "validate_FireRiskZoneCreate a =
     (case validate_risk_level (in_risk_level a) of
        Inl e \<Rightarrow> Inl e
      | Inr _ \<Rightarrow>
          (case validate_risk_category (in_risk_category a) of
             Inl e \<Rightarrow> Inl e
           | Inr _ \<Rightarrow> Inr a))"

text \<open>\<^verbatim>\<open>get_fire_risk_zone\<close> (\<^verbatim>\<open>fire_risk_service.py\<close>, lines 8-12).\<close>

definition get_fire_risk_zone :: "Session \<Rightarrow> int \<Rightarrow> FireRiskZone option" where
  "get_fire_risk_zone db zid = query_first (filter (\<lambda>z. zone_id z = zid) (fire_risk_zones db))"

text \<open>
  \<^verbatim>\<open>get_fire_risk_zones\<close> (lines 15-44). \<^verbatim>\<open>if region_name:\<close> and \<^verbatim>\<open>if risk_category:\<close> test
  the truth value of the string, so the empty string is treated like \<^verbatim>\<open>None\<close>.
\<close>

definition get_fire_risk_zones ::
  "Session \<Rightarrow> nat \<Rightarrow> nat \<Rightarrow> real option \<Rightarrow> real option \<Rightarrow> string option \<Rightarrow> string option
     \<Rightarrow> FireRiskZone list" where
  "get_fire_risk_zones db skip limit min_risk_level max_risk_level name category =
     (let query = fire_risk_zones db;
          query = (case min_risk_level of
                     None \<Rightarrow> query
                   | Some m \<Rightarrow> filter (\<lambda>z. risk_level z \<ge> Finite m) query);
          query = (case max_risk_level of
                     None \<Rightarrow> query
                   | Some m \<Rightarrow> filter (\<lambda>z. risk_level z \<le> Finite m) query);
          query = (case name of
                     None \<Rightarrow> query
                   | Some n \<Rightarrow>
                       if n = [] then query
                       else filter (\<lambda>z. ilike (region_name z) (contains_pattern n)) query);
          query = (case category of
                     None \<Rightarrow> query
                   | Some c \<Rightarrow>
                       if c = [] then query
                       else filter (\<lambda>z. risk_category z = c) query);
          query = query_order_by_desc risk_level query
      in query_limit limit (query_offset skip query))"

text \<open>\<^verbatim>\<open>get_fire_risk_zone_by_coords\<close> (lines 47-59); the default tolerance is 0.01.\<close>

definition get_fire_risk_zone_by_coords ::
  "Session \<Rightarrow> real \<Rightarrow> real \<Rightarrow> real \<Rightarrow> FireRiskZone option" where
  "get_fire_risk_zone_by_coords db lat lon tolerance =
     query_first (query_order_by_desc timestamp
       (filter (\<lambda>z. between (latitude z) (lat - tolerance) (lat + tolerance)
                   \<and> between (longitude z) (lon - tolerance) (lon + tolerance))
          (fire_risk_zones db)))"

definition default_tolerance :: real where
  "default_tolerance = 1 / 100"

text \<open>
  \<^verbatim>\<open>create_fire_risk_zone\<close> (lines 62-73): the row takes every attribute of the schema
  object; the engine assigns the key and the column default \<^verbatim>\<open>datetime.utcnow\<close> the
  timestamp. The function checks nothing: whatever the schema object holds is inserted.
\<close>

definition create_fire_risk_zone ::
  "Session \<Rightarrow> datetime \<Rightarrow> FireRiskZoneCreate \<Rightarrow> FireRiskZone \<times> Session" where
  "create_fire_risk_zone db now fire_risk_in =
     (let db_fire_risk =
            \<lparr> zone_id = next_id (map zone_id (fire_risk_zones db)),
              region_name = in_region_name fire_risk_in,
              latitude = in_latitude fire_risk_in,
              longitude = in_longitude fire_risk_in,
              risk_level = in_risk_level fire_risk_in,
              risk_category = in_risk_category fire_risk_in,
              timestamp = now,
              temperature = in_temperature fire_risk_in,
              humidity = in_humidity fire_risk_in,
              wind_speed = in_wind_speed fire_risk_in,
              precipitation = in_precipitation fire_risk_in,
              vegetation_density = in_vegetation_density fire_risk_in,
              vegetation_type = in_vegetation_type fire_risk_in,
              soil_moisture = in_soil_moisture fire_risk_in,
              prediction_model = in_prediction_model fire_risk_in,
              confidence_score = in_confidence_score fire_risk_in \<rparr>
      in (db_fire_risk, db\<lparr> fire_risk_zones := fire_risk_zones db @ [db_fire_risk] \<rparr>))"

text \<open>
  \<^verbatim>\<open>delete_fire_risk_zone\<close> (lines 96-105). \<^verbatim>\<open>db.delete\<close> removes the row with the key of the
  object it is given.
\<close>

definition delete_fire_risk_zone :: "Session \<Rightarrow> int \<Rightarrow> bool \<times> Session" where
  "delete_fire_risk_zone db zid =
     (case get_fire_risk_zone db zid of
        None \<Rightarrow> (False, db)
      | Some db_fire_risk \<Rightarrow>
          (True, db\<lparr> fire_risk_zones :=
                        filter (\<lambda>z. zone_id z \<noteq> zone_id db_fire_risk) (fire_risk_zones db) \<rparr>))"

text \<open>
  The endpoints of \<^verbatim>\<open>api/api_v1/endpoints/fire_risk.py\<close>. The dependency
  \<^verbatim>\<open>get_current_active_superuser\<close> (\<^verbatim>\<open>api/deps.py\<close>) answers 403 before the endpoint runs;
  the request body is parsed into the schema object, which fails with the validation error.
\<close>

definition create_fire_risk_zone_endpoint ::
  "Session \<Rightarrow> datetime \<Rightarrow> User \<Rightarrow> FireRiskZoneCreate \<Rightarrow> (error + FireRiskZone) \<times> Session" where
  "create_fire_risk_zone_endpoint db now current_user body =
     (if \<not> is_superuser current_user then (Inl (HTTPException 403), db)
      else
        (case validate_FireRiskZoneCreate body of
           Inl e \<Rightarrow> (Inl e, db)
         | Inr fire_risk_in \<Rightarrow>
             (let (zone, db') = create_fire_risk_zone db now fire_risk_in
              in (Inr zone, db'))))"

definition delete_fire_risk_zone_endpoint ::
  "Session \<Rightarrow> User \<Rightarrow> int \<Rightarrow> (error + string) \<times> Session" where
  "delete_fire_risk_zone_endpoint db current_user zid =
     (if \<not> is_superuser current_user then (Inl (HTTPException 403), db)
      else
        (case get_fire_risk_zone db zid of
           None \<Rightarrow> (Inl (HTTPException 404), db)
         | Some zone \<Rightarrow>
             (let (success, db') = delete_fire_risk_zone db zid
              in if success then (Inr ''Fire risk zone deleted successfully'', db')
                 else (Inl (HTTPException 500), db'))))"

section \<open>Incident repository\<close>

text \<open>
  \<^verbatim>\<open>get_fire_incidents\<close> (lines 108-144). \<^verbatim>\<open>query.join(models.FireRiskZone)\<close> is the inner
  join on the foreign key \<^verbatim>\<open>risk_zone_id\<close>; the query still yields the incidents. A
  \<^verbatim>\<open>datetime\<close> is always true, so a date bound applies whenever it is given; the string
  filters apply when they are given and not empty.
\<close>

definition get_fire_incidents ::
  "Session \<Rightarrow> nat \<Rightarrow> nat \<Rightarrow> string option \<Rightarrow> datetime option \<Rightarrow> datetime option
     \<Rightarrow> string option \<Rightarrow> string option \<Rightarrow> FireIncident list" where
  "get_fire_incidents db skip limit name start_date_from start_date_to status_in severity_in =
     (let query = fire_incidents db;
          query = (case name of
                     None \<Rightarrow> query
                   | Some n \<Rightarrow>
                       if n = [] then query
                       else [i. i \<leftarrow> query, z \<leftarrow> fire_risk_zones db,
                                zone_id z = risk_zone_id i,
                                ilike (region_name z) (contains_pattern n)]);
          query = (case start_date_from of
                     None \<Rightarrow> query
                   | Some d \<Rightarrow> filter (\<lambda>i. start_date i \<ge> d) query);
          query = (case start_date_to of
                     None \<Rightarrow> query
                   | Some d \<Rightarrow> filter (\<lambda>i. start_date i \<le> d) query);
          query = (case status_in of
                     None \<Rightarrow> query
                   | Some s \<Rightarrow> if s = [] then query else filter (\<lambda>i. status i = s) query);
          query = (case severity_in of
                     None \<Rightarrow> query
                   | Some s \<Rightarrow> if s = [] then query else filter (\<lambda>i. severity i = s) query);
          query = query_order_by_desc start_date query
      in query_limit limit (query_offset skip query))"

section \<open>Region subscription store\<close>








text \<open>\<^verbatim>\<open>delete_saved_region\<close> of the service (lines 186-197).\<close>

definition delete_saved_region :: "Session \<Rightarrow> int \<Rightarrow> bool \<times> Session" where
  "delete_saved_region db rid =
     (case query_first (filter (\<lambda>r. region_id r = rid) (saved_regions db)) of
        None \<Rightarrow> (False, db)
      | Some db_region \<Rightarrow>
          (True, db\<lparr> saved_regions :=
                        filter (\<lambda>r. region_id r \<noteq> region_id db_region) (saved_regions db) \<rparr>))"

text \<open>\<^verbatim>\<open>delete_saved_region\<close> of the endpoints (\<^verbatim>\<open>fire_risk.py\<close>, lines 180-209).\<close>

definition delete_saved_region_endpoint ::
  "Session \<Rightarrow> User \<Rightarrow> int \<Rightarrow> (error + string) \<times> Session" where
  "delete_saved_region_endpoint db current_user rid =
     (case query_first (filter (\<lambda>r. region_id r = rid) (saved_regions db)) of
        None \<Rightarrow> (Inl (HTTPException 404), db)
      | Some region \<Rightarrow>
          if region_user_id region \<noteq> user_id current_user \<and> \<not> is_superuser current_user
          then (Inl (HTTPException 403), db)
          else
            (let (success, db') = delete_saved_region db rid
             in if success then (Inr ''Saved region deleted successfully'', db')
                else (Inl (HTTPException 500), db')))"

section \<open>Prediction workflow\<close>

text \<open>
  The values that \<^verbatim>\<open>predict_fire_risk_zone\<close> draws from \<^verbatim>\<open>random\<close>, in the order of the
  calls; the model takes them as an argument.
\<close>

record RandomDraws =
  rnd_risk_level :: real
  rnd_temperature :: real
  rnd_humidity :: real
  rnd_wind_speed :: real
  rnd_precipitation :: real
  rnd_vegetation_density :: real
  rnd_vegetation_type :: string
  rnd_soil_moisture :: real
  rnd_confidence_score :: real

text \<open>
  Lines 39-95 of \<^verbatim>\<open>predict_fire_risk_zone\<close>: a new zone is built from the draws, validated,
  stored, and an alert is created for the user when the condition of line 86 holds. The
  argument \<^verbatim>\<open>fmt\<close> stands for the float format \<^verbatim>\<open>:.2f\<close>. The argument
  \<^verbatim>\<open>request_region_name\<close> is the entry \<^verbatim>\<open>region_name\<close> of \<^verbatim>\<open>request_data\<close>: \<open>None\<close> when
  the key is absent (the default name is taken), \<open>Some None\<close> when it is \<^verbatim>\<open>null\<close> (the schema
  object cannot be built, since \<^verbatim>\<open>region_name\<close> is a \<^verbatim>\<open>str\<close>), \<open>Some (Some n)\<close> when it is
  the string \<open>n\<close>.
\<close>

definition predict_new_zone ::
  "(real \<Rightarrow> string) \<Rightarrow> Session \<Rightarrow> datetime \<Rightarrow> RandomDraws \<Rightarrow> User \<Rightarrow> real \<Rightarrow> real
     \<Rightarrow> string option option \<Rightarrow> (error + FireRiskZone) \<times> Session" where
  "predict_new_zone fmt db now rnd current_user lat lon request_region_name =
     (let r = rnd_risk_level rnd;
          category = (if r > 7 / 10 then ''High''
                      else if r > 4 / 10 then ''Medium''
                      else ''Low'');
          name = (case request_region_name of
                    Some v \<Rightarrow> v
                  | None \<Rightarrow> Some (''Region near '' @ fmt lat @ '', '' @ fmt lon))
      in case name of
           None \<Rightarrow> (Inl ValidationError, db)
         | Some n \<Rightarrow>
             (case validate_FireRiskZoneCreate
                     \<lparr> in_region_name = n,
                       in_latitude = lat,
                       in_longitude = lon,
                       in_risk_level = Finite r,
                       in_risk_category = category,
                       in_temperature = Some (rnd_temperature rnd),
                       in_humidity = Some (rnd_humidity rnd),
                       in_wind_speed = Some (rnd_wind_speed rnd),
                       in_precipitation = Some (rnd_precipitation rnd),
                       in_vegetation_density = Some (rnd_vegetation_density rnd),
                       in_vegetation_type = Some (rnd_vegetation_type rnd),
                       in_soil_moisture = Some (rnd_soil_moisture rnd),
                       in_prediction_model = ''DemoRandomModel'',
                       in_confidence_score = rnd_confidence_score rnd \<rparr> of
                Inl e \<Rightarrow> (Inl e, db)
              | Inr fire_risk_in \<Rightarrow>
                  (let (zone, db1) = create_fire_risk_zone db now fire_risk_in
                   in if should_alert r (alert_threshold current_user)
                      then
                        (let (alert, db2) =
                               create_alert_for_user db1 now (user_id current_user)
                                 (zone_id zone) r
                                 (''High fire risk detected in '' @ region_name zone
                                    @ ''. Risk level: '' @ fmt r)
                         in (Inr zone, db2))
                      else (Inr zone, db1))))"

text \<open>
  \<^verbatim>\<open>predict_fire_risk_zone\<close> (\<^verbatim>\<open>predictions.py\<close>, lines 18-95): a zone found at the
  coordinates and less than one hour old is returned as it is.
\<close>

definition predict_fire_risk_zone ::
  "(real \<Rightarrow> string) \<Rightarrow> Session \<Rightarrow> datetime \<Rightarrow> RandomDraws \<Rightarrow> User \<Rightarrow> real \<Rightarrow> real
     \<Rightarrow> string option option \<Rightarrow> (error + FireRiskZone) \<times> Session" where
  "predict_fire_risk_zone fmt db now rnd current_user lat lon request_region_name =
     (case get_fire_risk_zone_by_coords db lat lon default_tolerance of
        None \<Rightarrow> predict_new_zone fmt db now rnd current_user lat lon request_region_name
      | Some existing_zone \<Rightarrow>
          if timestamp existing_zone > now - one_hour then (Inr existing_zone, db)
          else predict_new_zone fmt db now rnd current_user lat lon request_region_name)"

section \<open>Specification predicates and an example store\<close>

text \<open>
  The box of a stored zone, as the specification words it: the square of half-width
  \<^verbatim>\<open>tol\<close> around the zone's own coordinates contains the query point.
\<close>

definition zone_box_contains :: "FireRiskZone \<Rightarrow> real \<Rightarrow> real \<Rightarrow> real \<Rightarrow> bool" where
  "zone_box_contains z tol lat lon =
     (latitude z - tol \<le> lat \<and> lat \<le> latitude z + tol
      \<and> longitude z - tol \<le> lon \<and> lon \<le> longitude z + tol)"

text \<open>Substring containment: \<open>s\<close> occurs in \<open>t\<close> as a contiguous run of characters.\<close>

fun is_substring :: "string \<Rightarrow> string \<Rightarrow> bool" where
  "is_substring s [] = (s = [])"
| "is_substring s (c # cs) = (take (length s) (c # cs) = s \<or> is_substring s cs)"

text \<open>
  What the filters of the zone listing select, as the code applies them: a bound on the
  risk level when it is given, the region pattern and the category when they are given
  and not empty.
\<close>

definition zone_passes ::
  "real option \<Rightarrow> real option \<Rightarrow> string option \<Rightarrow> string option \<Rightarrow> FireRiskZone \<Rightarrow> bool" where
  "zone_passes min_risk_level max_risk_level name category z =
     ((case min_risk_level of None \<Rightarrow> True | Some m \<Rightarrow> Finite m \<le> risk_level z)
      \<and> (case max_risk_level of None \<Rightarrow> True | Some m \<Rightarrow> risk_level z \<le> Finite m)
      \<and> (case name of
            None \<Rightarrow> True
          | Some n \<Rightarrow> n = [] \<or> ilike (region_name z) (contains_pattern n))
      \<and> (case category of None \<Rightarrow> True | Some c \<Rightarrow> c = [] \<or> risk_category z = c))"

text \<open>
  What the filters of the incident listing select: with a region pattern that is given and
  not empty, a stored zone with the incident's \<^verbatim>\<open>risk_zone_id\<close> whose name matches.
\<close>

definition incident_passes ::
  "Session \<Rightarrow> string option \<Rightarrow> datetime option \<Rightarrow> datetime option \<Rightarrow> string option
     \<Rightarrow> string option \<Rightarrow> FireIncident \<Rightarrow> bool" where
  "incident_passes db name start_date_from start_date_to status_in severity_in i =
     ((case name of
         None \<Rightarrow> True
       | Some n \<Rightarrow>
           n = [] \<or> (\<exists>z \<in> set (fire_risk_zones db).
                        zone_id z = risk_zone_id i \<and> ilike (region_name z) (contains_pattern n)))
      \<and> (case start_date_from of None \<Rightarrow> True | Some d \<Rightarrow> d \<le> start_date i)
      \<and> (case start_date_to of None \<Rightarrow> True | Some d \<Rightarrow> start_date i \<le> d)
      \<and> (case status_in of None \<Rightarrow> True | Some s \<Rightarrow> s = [] \<or> status i = s)
      \<and> (case severity_in of None \<Rightarrow> True | Some s \<Rightarrow> s = [] \<or> severity i = s))"

text \<open>The constraints of the specification on the attributes of a new zone.\<close>

definition in_unit_interval :: "pyfloat \<Rightarrow> bool" where
  "in_unit_interval v = (case v of Finite r \<Rightarrow> 0 \<le> r \<and> r \<le> 1 | NaN \<Rightarrow> False)"

definition valid_zone_attrs :: "FireRiskZoneCreate \<Rightarrow> bool" where
  "valid_zone_attrs a =
     (in_unit_interval (in_risk_level a)
      \<and> in_risk_category a \<in> {''Low'', ''Medium'', ''High''})"

text \<open>A store with three zones, two of them within 0.01 degrees of (10, 20).\<close>

definition zone_a :: FireRiskZone where
  "zone_a = \<lparr> zone_id = 1, region_name = ''North Ridge'', latitude = 10, longitude = 20,
              risk_level = Finite (3 / 10), risk_category = ''Low'', timestamp = 1000,
              temperature = None, humidity = None, wind_speed = None, precipitation = None,
              vegetation_density = None, vegetation_type = None, soil_moisture = None,
              prediction_model = ''DemoRandomModel'', confidence_score = 8 / 10 \<rparr>"

definition zone_b :: FireRiskZone where
  "zone_b = \<lparr> zone_id = 2, region_name = ''abc'', latitude = 2001 / 200, longitude = 20,
              risk_level = Finite (85 / 100), risk_category = ''High'', timestamp = 5000,
              temperature = Some 30, humidity = Some 25, wind_speed = None,
              precipitation = None, vegetation_density = None, vegetation_type = None,
              soil_moisture = None, prediction_model = ''DemoRandomModel'',
              confidence_score = 9 / 10 \<rparr>"

definition zone_c :: FireRiskZone where
  "zone_c = \<lparr> zone_id = 3, region_name = ''South Vale'', latitude = 50, longitude = 60,
              risk_level = Finite (1 / 2), risk_category = ''Medium'', timestamp = 2000,
              temperature = None, humidity = None, wind_speed = None, precipitation = None,
              vegetation_density = None, vegetation_type = None, soil_moisture = None,
              prediction_model = ''DemoRandomModel'', confidence_score = 7 / 10 \<rparr>"

text \<open>
  Three incidents: the first belongs to \<open>zone_a\<close>, the second names a zone that is not
  stored, the third belongs to \<open>zone_c\<close>.
\<close>

definition incident_1 :: FireIncident where
  "incident_1 = \<lparr> incident_id = 1, risk_zone_id = 1, incident_latitude = 10,
                  incident_longitude = 20, start_date = 300, end_date = None,
                  severity = ''High'', area_affected = None, status = ''Active'',
                  source = ''Satellite'', description = None \<rparr>"

definition incident_2 :: FireIncident where
  "incident_2 = \<lparr> incident_id = 2, risk_zone_id = 99, incident_latitude = 11,
                  incident_longitude = 21, start_date = 500, end_date = None,
                  severity = ''Low'', area_affected = None, status = ''Active'',
                  source = ''Official'', description = None \<rparr>"

definition incident_3 :: FireIncident where
  "incident_3 = \<lparr> incident_id = 3, risk_zone_id = 3, incident_latitude = 50,
                  incident_longitude = 60, start_date = 400, end_date = Some 450,
                  severity = ''Medium'', area_affected = Some 2, status = ''Contained'',
                  source = ''Ground Report'', description = None \<rparr>"

text \<open>Three saved regions: two of user 7, one of user 8.\<close>

definition region_1 :: SavedRegion where
  "region_1 = \<lparr> region_id = 1, region_user_id = 7, saved_region_name = ''Home'',
                region_latitude = 10, region_longitude = 20, created_at = 100,
                region_alert_threshold = Some (7 / 10) \<rparr>"

definition region_2 :: SavedRegion where
  "region_2 = \<lparr> region_id = 2, region_user_id = 8, saved_region_name = ''Cabin'',
                region_latitude = 50, region_longitude = 60, created_at = 200,
                region_alert_threshold = Some (1 / 2) \<rparr>"

definition region_3 :: SavedRegion where
  "region_3 = \<lparr> region_id = 3, region_user_id = 7, saved_region_name = ''Office'',
                region_latitude = 12, region_longitude = 22, created_at = 300,
                region_alert_threshold = Some (7 / 10) \<rparr>"

definition example_db :: Session where
  "example_db = \<lparr> fire_risk_zones = [zone_a, zone_b, zone_c],
                  fire_incidents = [incident_1, incident_2, incident_3],
                  saved_regions = [region_1, region_2, region_3], alerts = [] \<rparr>"



text \<open>
  Users: the owner of two regions, a user who owns none and whose threshold is 0, and a
  superuser.
\<close>

definition owner_user :: User where
  "owner_user = \<lparr> user_id = 7, is_superuser = False, alert_threshold = Some (7 / 10) \<rparr>"

definition other_user :: User where
  "other_user = \<lparr> user_id = 9, is_superuser = False, alert_threshold = Some 0 \<rparr>"

definition admin_user :: User where
  "admin_user = \<lparr> user_id = 1, is_superuser = True, alert_threshold = None \<rparr>"

text \<open>
  Attributes of a new zone: one valid set, one with a risk level above 1, one with the
  risk level NaN.
\<close>

definition attrs_high :: FireRiskZoneCreate where
  "attrs_high = \<lparr> in_region_name = ''Pine Hills'', in_latitude = 34, in_longitude = - 118,
                  in_risk_level = Finite (85 / 100), in_risk_category = ''High'',
                  in_temperature = None, in_humidity = None, in_wind_speed = None,
                  in_precipitation = None, in_vegetation_density = None,
                  in_vegetation_type = None, in_soil_moisture = None,
                  in_prediction_model = ''DemoRandomModel'', in_confidence_score = 9 / 10 \<rparr>"

definition attrs_out_of_range :: FireRiskZoneCreate where
  "attrs_out_of_range = attrs_high \<lparr> in_risk_level := Finite (3 / 2) \<rparr>"

definition attrs_nan :: FireRiskZoneCreate where
  "attrs_nan = attrs_high \<lparr> in_risk_level := NaN \<rparr>"

text \<open>Two sets of draws: a risk level of 0.5 and one of 0.9.\<close>

definition draws :: RandomDraws where
  "draws = \<lparr> rnd_risk_level = 1 / 2, rnd_temperature = 20, rnd_humidity = 50,
             rnd_wind_speed = 5, rnd_precipitation = 1, rnd_vegetation_density = 1 / 2,
             rnd_vegetation_type = ''Forest'', rnd_soil_moisture = 1 / 2,
             rnd_confidence_score = 8 / 10 \<rparr>"

definition draws_high :: RandomDraws where
  "draws_high = draws \<lparr> rnd_risk_level := 9 / 10 \<rparr>"

section \<open>Auxiliary facts\<close>

subsection \<open>The first row of a descending order\<close>

lemma query_first_desc_None: "(query_first (query_order_by_desc k xs) = None) = (xs = [])"
proof -
  have "(query_first ys = None) = (ys = [])" for ys :: "'a list"
    by (cases ys) (simp_all add: query_first_def)
  moreover have "(sort_key k xs = []) = (xs = [])"
    by (metis length_0_conv length_sort)
  ultimately show ?thesis by (simp add: query_order_by_desc_def)
qed

lemma query_first_desc_Some:
  assumes "query_first (query_order_by_desc k xs) = Some x"
  shows "x \<in> set xs \<and> (\<forall>y\<in>set xs. k y \<le> k x)"
proof -
  let ?ys = "sort_key k xs"
  from assms obtain rest where "rev ?ys = x # rest"
    by (auto simp: query_first_def query_order_by_desc_def split: list.splits)
  then have ys: "?ys = rev rest @ [x]" by (simp add: rev_swap)
  have "set ?ys = set xs" by simp
  with ys have mem: "x \<in> set xs" and sub: "set xs = insert x (set rest)" by auto
  have "sorted (map k ?ys)" by simp
  with ys have "\<forall>y\<in>set rest. k y \<le> k x" by (simp add: sorted_append)
  with sub mem show ?thesis by auto
qed

lemma box_filter_iff:
  "(between (latitude z) (lat - tol) (lat + tol) \<and> between (longitude z) (lon - tol) (lon + tol))
     = zone_box_contains z tol lat lon"
  unfolding between_def zone_box_contains_def by auto

subsection \<open>Alert condition, validation, lookup by key\<close>

text \<open>For every threshold other than 0 the alert condition is the comparison.\<close>

lemma should_alert_nonzero: "t \<noteq> 0 \<Longrightarrow> should_alert r (Some t) = (t \<le> r)"
  by (simp add: should_alert_def)

text \<open>
  What the validators accept, and its agreement with the constraints of the specification
  on every risk level that is a number.
\<close>

lemma validate_FireRiskZoneCreate_accepts:
  "validate_FireRiskZoneCreate a =
     (if py_lt (in_risk_level a) (Finite 0) \<or> py_gt (in_risk_level a) (Finite 1)
         \<or> in_risk_category a \<notin> {''Low'', ''Medium'', ''High''}
      then Inl ValidationError else Inr a)"
  by (simp add: validate_FireRiskZoneCreate_def validate_risk_level_def
      validate_risk_category_def valid_categories_def)

lemma validate_FireRiskZoneCreate_finite:
  "in_risk_level a = Finite r \<Longrightarrow>
     validate_FireRiskZoneCreate a = (if valid_zone_attrs a then Inr a else Inl ValidationError)"
  by (auto simp: validate_FireRiskZoneCreate_accepts valid_zone_attrs_def in_unit_interval_def)

text \<open>
  The endpoint on attributes whose risk level is a number: an invalid set is refused and
  the store is unchanged; a valid set is stored, every attribute as given, with the next
  key and the current time.
\<close>

lemma create_fire_risk_zone_endpoint_finite:
  assumes "is_superuser u" and "in_risk_level a = Finite r"
  shows "create_fire_risk_zone_endpoint db now u a =
     (if valid_zone_attrs a
      then (Inr \<lparr> zone_id = next_id (map zone_id (fire_risk_zones db)),
                   region_name = in_region_name a,
                   latitude = in_latitude a,
                   longitude = in_longitude a,
                   risk_level = Finite r,
                   risk_category = in_risk_category a,
                   timestamp = now,
                   temperature = in_temperature a,
                   humidity = in_humidity a,
                   wind_speed = in_wind_speed a,
                   precipitation = in_precipitation a,
                   vegetation_density = in_vegetation_density a,
                   vegetation_type = in_vegetation_type a,
                   soil_moisture = in_soil_moisture a,
                   prediction_model = in_prediction_model a,
                   confidence_score = in_confidence_score a \<rparr>,
            db\<lparr> fire_risk_zones := fire_risk_zones db @
                 [\<lparr> zone_id = next_id (map zone_id (fire_risk_zones db)),
                    region_name = in_region_name a,
                    latitude = in_latitude a,
                    longitude = in_longitude a,
                    risk_level = Finite r,
                    risk_category = in_risk_category a,
                    timestamp = now,
                    temperature = in_temperature a,
                    humidity = in_humidity a,
                    wind_speed = in_wind_speed a,
                    precipitation = in_precipitation a,
                    vegetation_density = in_vegetation_density a,
                    vegetation_type = in_vegetation_type a,
                    soil_moisture = in_soil_moisture a,
                    prediction_model = in_prediction_model a,
                    confidence_score = in_confidence_score a \<rparr>] \<rparr>)
      else (Inl ValidationError, db))"
  using assms
  by (simp add: create_fire_risk_zone_endpoint_def validate_FireRiskZoneCreate_finite
      create_fire_risk_zone_def Let_def)

text \<open>A risk level of 1.5 is refused and the store is unchanged.\<close>

lemma create_fire_risk_zone_endpoint_out_of_range:
  "create_fire_risk_zone_endpoint example_db 9000 admin_user attrs_out_of_range
     = (Inl ValidationError, example_db)"
proof -
  have su: "is_superuser admin_user" by (simp add: admin_user_def)
  have fin: "in_risk_level attrs_out_of_range = Finite (3 / 2)"
    by (simp add: attrs_out_of_range_def)
  have "\<not> valid_zone_attrs attrs_out_of_range"
    by (simp add: valid_zone_attrs_def in_unit_interval_def attrs_out_of_range_def)
  with create_fire_risk_zone_endpoint_finite[OF su fin, of example_db 9000]
  show ?thesis by simp
qed

lemma query_first_filter_None:
  "(query_first (filter P xs) = None) = (\<forall>x \<in> set xs. \<not> P x)"
proof -
  have "(query_first (filter P xs) = None) = (filter P xs = [])"
    by (simp add: query_first_def split: list.splits)
  then show ?thesis by (simp add: filter_empty_conv)
qed

subsection \<open>Unique keys\<close>

lemma filter_key_eq_distinct:
  "distinct (map f xs) \<Longrightarrow> r \<in> set xs \<Longrightarrow> filter (\<lambda>x. f x = f r) xs = [r]"
proof (induction xs)
  case Nil
  then show ?case by simp
next
  case (Cons a xs)
  show ?case
  proof (cases "a = r")
    case True
    with Cons.prems have "f r \<notin> f ` set xs" by simp
    then have "\<forall>x \<in> set xs. f x \<noteq> f r" by (metis image_eqI)
    then have "filter (\<lambda>x. f x = f r) xs = []" by (simp add: filter_empty_conv)
    with True show ?thesis by simp
  next
    case False
    with Cons.prems have mem: "r \<in> set xs" and d: "distinct (map f xs)" by auto
    from Cons.prems mem have "f a \<noteq> f r" by auto
    with Cons.IH[OF d mem] show ?thesis by simp
  qed
qed

lemma filter_key_neq_distinct:
  "distinct (map f xs) \<Longrightarrow> r \<in> set xs \<Longrightarrow> filter (\<lambda>x. f x \<noteq> f r) xs = remove1 r xs"
proof (induction xs)
  case Nil
  then show ?case by simp
next
  case (Cons a xs)
  show ?case
  proof (cases "a = r")
    case True
    with Cons.prems have "f r \<notin> f ` set xs" by simp
    then have "\<forall>x \<in> set xs. f x \<noteq> f r" by (metis image_eqI)
    then have "filter (\<lambda>x. f x \<noteq> f r) xs = xs" by (simp add: filter_id_conv)
    with True show ?thesis by simp
  next
    case False
    with Cons.prems have mem: "r \<in> set xs" and d: "distinct (map f xs)" by auto
    from Cons.prems mem have "f a \<noteq> f r" by auto
    with False Cons.IH[OF d mem] show ?thesis by simp
  qed
qed

subsection \<open>Pattern matching without wildcards is substring containment\<close>

lemma like_match_percent_only: "like_match ''%'' s"
  by (induction s) simp_all

lemma like_match_literal_prefix:
  "CHR ''%'' \<notin> set r \<Longrightarrow> CHR ''_'' \<notin> set r \<Longrightarrow>
     like_match (r @ ''%'') t = (take (length r) t = r)"
proof (induction r arbitrary: t)
  case Nil
  then show ?case by (simp add: like_match_percent_only)
next
  case (Cons a r)
  then show ?case by (cases t) auto
qed

lemma like_match_contains:
  assumes "CHR ''%'' \<notin> set r" and "CHR ''_'' \<notin> set r"
  shows "like_match (CHR ''%'' # r @ ''%'') s = is_substring r s"
proof (induction s)
  case Nil
  show ?case using assms by (cases r) auto
next
  case (Cons c cs)
  have "like_match (CHR ''%'' # r @ ''%'') (c # cs)
          = (like_match (r @ ''%'') (c # cs) \<or> like_match (CHR ''%'' # r @ ''%'') cs)"
    by simp
  also have "\<dots> = (take (length r) (c # cs) = r \<or> is_substring r cs)"
    by (simp only: like_match_literal_prefix[OF assms] Cons.IH)
  finally show ?case by simp
qed

lemma lower_char_cases:
  "lower_char c = c \<or> lower_char c \<in> set ''abcdefghijklmnopqrstuvwxyz''"
proof (cases "map_of (zip ''ABCDEFGHIJKLMNOPQRSTUVWXYZ'' ''abcdefghijklmnopqrstuvwxyz'') c")
  case None
  then show ?thesis by (simp add: lower_char_def)
next
  case (Some l)
  then have "l \<in> set ''abcdefghijklmnopqrstuvwxyz''"
    by (metis map_of_SomeD set_zip_rightD)
  with Some show ?thesis by (simp add: lower_char_def)
qed

lemma lower_char_percent: "lower_char (CHR ''%'') = CHR ''%''"
  by (simp add: lower_char_def)

lemma lower_char_wildcard:
  "(lower_char c = CHR ''%'') = (c = CHR ''%'')" "(lower_char c = CHR ''_'') = (c = CHR ''_'')"
proof -
  have p: "lower_char (CHR ''%'') = CHR ''%''" and u: "lower_char (CHR ''_'') = CHR ''_''"
    by (simp_all add: lower_char_def)
  from lower_char_cases[of c] p show "(lower_char c = CHR ''%'') = (c = CHR ''%'')" by auto
  from lower_char_cases[of c] u show "(lower_char c = CHR ''_'') = (c = CHR ''_'')" by auto
qed

lemma ilike_contains_substring:
  assumes "CHR ''%'' \<notin> set n" and "CHR ''_'' \<notin> set n"
  shows "ilike column (contains_pattern n)
           = is_substring (map lower_char n) (map lower_char column)"
proof -
  have "CHR ''%'' \<notin> set (map lower_char n)"
  proof
    assume "CHR ''%'' \<in> set (map lower_char n)"
    then obtain x where "x \<in> set n" "lower_char x = CHR ''%''" by auto
    with assms(1) show False by (simp add: lower_char_wildcard)
  qed
  moreover have "CHR ''_'' \<notin> set (map lower_char n)"
  proof
    assume "CHR ''_'' \<in> set (map lower_char n)"
    then obtain x where "x \<in> set n" "lower_char x = CHR ''_''" by auto
    with assms(2) show False by (simp add: lower_char_wildcard)
  qed
  ultimately have "like_match (CHR ''%'' # map lower_char n @ ''%'') (map lower_char column)
                     = is_substring (map lower_char n) (map lower_char column)"
    by (rule like_match_contains)
  then show ?thesis
    by (simp add: ilike_def contains_pattern_def lower_char_percent)
qed

subsection \<open>The listings as filter, sort and slice\<close>

lemma is_substring_empty: "is_substring [] t"
  by (cases t) simp_all

lemma optional_filter:
  "(case v of None \<Rightarrow> q | Some m \<Rightarrow> filter (P m) q)
     = filter (\<lambda>z. case v of None \<Rightarrow> True | Some m \<Rightarrow> P m z) q"
  by (cases v) simp_all

lemma optional_nonempty_filter:
  "(case v of None \<Rightarrow> q | Some s \<Rightarrow> if s = [] then q else filter (P s) q)
     = filter (\<lambda>z. case v of None \<Rightarrow> True | Some s \<Rightarrow> s = [] \<or> P s z) q"
  by (cases v) simp_all

lemma get_fire_risk_zones_pipeline:
  "get_fire_risk_zones db skip limit mn mx name cat
     = take limit (drop skip (query_order_by_desc risk_level
         (filter (zone_passes mn mx name cat) (fire_risk_zones db))))"
proof -
  have "filter (zone_passes mn mx name cat) (fire_risk_zones db)
          = filter (\<lambda>z. (case mn of None \<Rightarrow> True | Some m \<Rightarrow> Finite m \<le> risk_level z)
               \<and> (case mx of None \<Rightarrow> True | Some m \<Rightarrow> risk_level z \<le> Finite m)
               \<and> (case name of None \<Rightarrow> True
                  | Some n \<Rightarrow> n = [] \<or> ilike (region_name z) (contains_pattern n))
               \<and> (case cat of None \<Rightarrow> True | Some c \<Rightarrow> c = [] \<or> risk_category z = c))
              (fire_risk_zones db)"
    by (rule filter_cong) (simp_all add: zone_passes_def)
  then show ?thesis
    by (simp only: get_fire_risk_zones_def Let_def optional_filter optional_nonempty_filter
        filter_filter conj_assoc query_limit_def query_offset_def)
qed

lemma sorted_desc_sort_key:
  fixes key :: "'a \<Rightarrow> 'k::linorder"
  shows "sorted_wrt (\<lambda>a b. key a \<ge> key b) (query_order_by_desc key xs)"
proof -
  have "sorted (map key (sort_key key xs))" by (rule sorted_sort_key)
  then show ?thesis by (simp add: query_order_by_desc_def sorted_map sorted_wrt_rev)
qed

lemma mset_query_order_by_desc: "mset (query_order_by_desc key xs) = mset xs"
  by (simp add: query_order_by_desc_def)

lemma set_query_order_by_desc: "set (query_order_by_desc key xs) = set xs"
  by (simp add: query_order_by_desc_def)

lemma length_query_order_by_desc: "length (query_order_by_desc key xs) = length xs"
  by (simp add: query_order_by_desc_def)

subsection \<open>The join of incidents with zones\<close>

lemma join_no_match:
  "\<forall>z \<in> set zs. f z \<noteq> k \<Longrightarrow>
     concat (map (\<lambda>z. if f z = k then if P z then [i] else [] else []) zs) = []"
  by (induction zs) simp_all

lemma join_one_row:
  "distinct (map f zs) \<Longrightarrow>
     concat (map (\<lambda>z. if f z = k then if P z then [i] else [] else []) zs)
       = (if \<exists>z \<in> set zs. f z = k \<and> P z then [i] else [])"
proof (induction zs)
  case Nil
  then show ?case by simp
next
  case (Cons a zs)
  show ?case
  proof (cases "f a = k")
    case True
    with Cons.prems have "\<forall>z \<in> set zs. f z \<noteq> k" by (metis distinct.simps(2) image_eqI list.simps(9) set_map)
    with True show ?thesis by (auto simp: join_no_match)
  next
    case False
    with Cons show ?thesis by simp
  qed
qed

lemma join_zone_filter:
  assumes "distinct (map zone_id zs)"
  shows "[i. i \<leftarrow> rows, z \<leftarrow> zs, zone_id z = risk_zone_id i, P z]
           = filter (\<lambda>i. \<exists>z \<in> set zs. zone_id z = risk_zone_id i \<and> P z) rows"
  by (induction rows) (simp_all add: join_one_row[OF assms])

lemma optional_join:
  assumes "distinct (map zone_id zs)"
  shows "(case v of None \<Rightarrow> q
          | Some n \<Rightarrow> if n = [] then q
                      else [i. i \<leftarrow> q, z \<leftarrow> zs, zone_id z = risk_zone_id i, P n z])
         = filter (\<lambda>i. case v of None \<Rightarrow> True
                        | Some n \<Rightarrow> n = [] \<or> (\<exists>z \<in> set zs. zone_id z = risk_zone_id i \<and> P n z)) q"
  by (cases v) (simp_all add: join_zone_filter[OF assms])

lemma get_fire_incidents_pipeline:
  assumes "distinct (map zone_id (fire_risk_zones db))"
  shows "get_fire_incidents db skip limit name df dt st sv
     = take limit (drop skip (query_order_by_desc start_date
         (filter (incident_passes db name df dt st sv) (fire_incidents db))))"
proof -
  have "filter (incident_passes db name df dt st sv) (fire_incidents db)
          = filter (\<lambda>i. (case name of None \<Rightarrow> True
              | Some n \<Rightarrow> n = [] \<or> (\<exists>z \<in> set (fire_risk_zones db).
                   zone_id z = risk_zone_id i \<and> ilike (region_name z) (contains_pattern n)))
              \<and> (case df of None \<Rightarrow> True | Some d \<Rightarrow> d \<le> start_date i)
              \<and> (case dt of None \<Rightarrow> True | Some d \<Rightarrow> start_date i \<le> d)
              \<and> (case st of None \<Rightarrow> True | Some s \<Rightarrow> s = [] \<or> status i = s)
              \<and> (case sv of None \<Rightarrow> True | Some s \<Rightarrow> s = [] \<or> severity i = s))
            (fire_incidents db)"
    by (rule filter_cong) (simp_all add: incident_passes_def)
  then show ?thesis
    by (simp only: get_fire_incidents_def Let_def optional_join[OF assms] optional_filter
        optional_nonempty_filter filter_filter conj_assoc query_limit_def query_offset_def)
qed

subsection \<open>Alerts kept by the prediction workflow\<close>

lemma predict_new_zone_alerts:
  "\<exists>new. alerts (snd (predict_new_zone fmt db now rnd u lat lon rn)) = alerts db @ new
         \<and> length new \<le> 1
         \<and> list_all (\<lambda>a. \<not> is_read a \<and> \<not> is_sent_email a \<and> \<not> is_sent_sms a) new"
proof -
  let ?res = "predict_new_zone fmt db now rnd u lat lon rn"
  have "alerts (snd ?res) = alerts db
        \<or> (\<exists>x. alerts (snd ?res) = alerts db @ [x]
                \<and> \<not> is_read x \<and> \<not> is_sent_email x \<and> \<not> is_sent_sms x)"
    by (simp add: predict_new_zone_def Let_def create_fire_risk_zone_def
        create_alert_for_user_def split: option.splits sum.splits)
  then show ?thesis
  proof
    assume "alerts (snd ?res) = alerts db"
    then have "alerts (snd ?res) = alerts db @ [] \<and> length ([] :: Alert list) \<le> 1
         \<and> list_all (\<lambda>a. \<not> is_read a \<and> \<not> is_sent_email a \<and> \<not> is_sent_sms a) []"
      by simp
    then show ?thesis by blast
  next
    assume "\<exists>x. alerts (snd ?res) = alerts db @ [x]
                \<and> \<not> is_read x \<and> \<not> is_sent_email x \<and> \<not> is_sent_sms x"
    then obtain x where "alerts (snd ?res) = alerts db @ [x]"
      "\<not> is_read x \<and> \<not> is_sent_email x \<and> \<not> is_sent_sms x" by blast
    then have "alerts (snd ?res) = alerts db @ [x] \<and> length [x] \<le> 1
         \<and> list_all (\<lambda>a. \<not> is_read a \<and> \<not> is_sent_email a \<and> \<not> is_sent_sms a) [x]"
      by simp
    then show ?thesis by blast
  qed
qed

lemma predict_fire_risk_zone_alerts:
  "\<exists>new. alerts (snd (predict_fire_risk_zone fmt db now rnd u lat lon rn)) = alerts db @ new
         \<and> length new \<le> 1
         \<and> list_all (\<lambda>a. \<not> is_read a \<and> \<not> is_sent_email a \<and> \<not> is_sent_sms a) new"
proof (cases "predict_fire_risk_zone fmt db now rnd u lat lon rn
                = predict_new_zone fmt db now rnd u lat lon rn")
  case True
  then show ?thesis by (simp only: predict_new_zone_alerts)
next
  case False
  then have "snd (predict_fire_risk_zone fmt db now rnd u lat lon rn) = db"
    by (auto simp: predict_fire_risk_zone_def split: option.splits if_splits)
  then show ?thesis by simp
qed

section \<open>Properties\<close>

text \<open>
  C8. Alert creation appends one alert that carries the given user id, zone id, risk level
  and message, with \<^verbatim>\<open>is_read\<close>, \<^verbatim>\<open>is_sent_email\<close> and \<^verbatim>\<open>is_sent_sms\<close> all false; every alert
  stored before is still there unchanged (so no flag of any alert is flipped), and the
  other tables are untouched. The prediction workflow, the caller of alert creation,
  likewise keeps every stored alert and adds at most one, with the three flags false.
\<close>

theorem create_alert_for_user_unread_unsent:
  "alert_user_id (fst (create_alert_for_user db now uid zid r msg)) = uid
   \<and> alert_risk_zone_id (fst (create_alert_for_user db now uid zid r msg)) = zid
   \<and> alert_risk_level (fst (create_alert_for_user db now uid zid r msg)) = r
   \<and> message (fst (create_alert_for_user db now uid zid r msg)) = msg
   \<and> is_read (fst (create_alert_for_user db now uid zid r msg)) = False
   \<and> is_sent_email (fst (create_alert_for_user db now uid zid r msg)) = False
   \<and> is_sent_sms (fst (create_alert_for_user db now uid zid r msg)) = False
   \<and> alerts (snd (create_alert_for_user db now uid zid r msg))
       = alerts db @ [fst (create_alert_for_user db now uid zid r msg)]
   \<and> fire_risk_zones (snd (create_alert_for_user db now uid zid r msg)) = fire_risk_zones db
   \<and> fire_incidents (snd (create_alert_for_user db now uid zid r msg)) = fire_incidents db
   \<and> saved_regions (snd (create_alert_for_user db now uid zid r msg)) = saved_regions db
   \<and> (\<exists>new. alerts (snd (predict_fire_risk_zone fmt db now rnd u lat lon rn)) = alerts db @ new
          \<and> length new \<le> 1
          \<and> list_all (\<lambda>a. \<not> is_read a \<and> \<not> is_sent_email a \<and> \<not> is_sent_sms a) new)"
proof -
  have "\<exists>new. alerts (snd (predict_fire_risk_zone fmt db now rnd u lat lon rn)) = alerts db @ new
          \<and> length new \<le> 1
          \<and> list_all (\<lambda>a. \<not> is_read a \<and> \<not> is_sent_email a \<and> \<not> is_sent_sms a) new"
    by (rule predict_fire_risk_zone_alerts)
  then show ?thesis by (simp add: create_alert_for_user_def Let_def)
qed

text \<open>
  A user with threshold 0.7 requests a prediction that draws the risk level 0.9: one
  unread, unsent alert is stored for the new zone.
\<close>

theorem create_alert_for_user_unread_unsent_witness:
  "fst (create_alert_for_user example_db 6000 7 4 (9 / 10) ''High fire risk'')
     = \<lparr> alert_id = 1, alert_user_id = 7, alert_risk_zone_id = 4, alert_time = 6000,
         alert_risk_level = 9 / 10, message = ''High fire risk'', is_read = False,
         is_sent_email = False, is_sent_sms = False \<rparr>
   \<and> alerts (snd (predict_fire_risk_zone (\<lambda>x. ''0.90'') example_db 6000 draws_high owner_user
                      70 80 (Some (Some ''Pine Hills''))))
       = [\<lparr> alert_id = 1, alert_user_id = 7, alert_risk_zone_id = 4, alert_time = 6000,
            alert_risk_level = 9 / 10,
            message = ''High fire risk detected in Pine Hills. Risk level: 0.90'',
            is_read = False, is_sent_email = False, is_sent_sms = False \<rparr>]"
proof -
  have a: "fst (create_alert_for_user example_db 6000 7 4 (9 / 10) ''High fire risk'')
     = \<lparr> alert_id = 1, alert_user_id = 7, alert_risk_zone_id = 4, alert_time = 6000,
         alert_risk_level = 9 / 10, message = ''High fire risk'', is_read = False,
         is_sent_email = False, is_sent_sms = False \<rparr>"
    using create_alert_for_user_unread_unsent[of example_db 6000 7 4 "9 / 10" "''High fire risk''"]
    by (simp add: create_alert_for_user_def Let_def next_id_def example_db_def)
  have b: "alerts (snd (predict_fire_risk_zone (\<lambda>x. ''0.90'') example_db 6000 draws_high owner_user
                      70 80 (Some (Some ''Pine Hills''))))
       = [\<lparr> alert_id = 1, alert_user_id = 7, alert_risk_zone_id = 4, alert_time = 6000,
            alert_risk_level = 9 / 10,
            message = ''High fire risk detected in Pine Hills. Risk level: 0.90'',
            is_read = False, is_sent_email = False, is_sent_sms = False \<rparr>]"
    by (simp add: should_alert_def predict_fire_risk_zone_def predict_new_zone_def Let_def
      get_fire_risk_zone_by_coords_def default_tolerance_def between_def query_first_def
      query_order_by_desc_def example_db_def zone_a_def zone_b_def zone_c_def
      validate_FireRiskZoneCreate_accepts create_fire_risk_zone_def
      create_alert_for_user_def next_id_def owner_user_def draws_high_def draws_def)
  from a b show ?thesis by simp
qed



text \<open>
  C1. The alert condition of the prediction workflow at risk level 1/2 and threshold 0,
  both in [0,1] with the risk level above the threshold: the condition is false, because
  the threshold 0 counts as absent. A prediction for a user with threshold 0 that draws
  the risk level 1/2 stores the zone and creates no alert.
\<close>

theorem should_alert_zero_threshold:
  "should_alert (1 / 2) (Some 0) = False
   \<and> alert_threshold other_user = Some 0
   \<and> rnd_risk_level draws = 1 / 2
   \<and> alerts (snd (predict_fire_risk_zone (\<lambda>x. ''0.50'') example_db 6000 draws other_user
                      70 80 (Some (Some ''Pine Hills'')))) = []"
  by (simp add: should_alert_def predict_fire_risk_zone_def predict_new_zone_def Let_def
      get_fire_risk_zone_by_coords_def default_tolerance_def between_def query_first_def
      query_order_by_desc_def example_db_def zone_a_def zone_b_def zone_c_def
      validate_FireRiskZoneCreate_accepts create_fire_risk_zone_def
      other_user_def draws_def)

text \<open>
  C3. Creation of a zone whose risk level is NaN, which is not in [0,1]: both comparisons
  of the validator are false, no validation error is raised, and the endpoint stores the
  zone.
\<close>

theorem create_fire_risk_zone_accepts_nan:
  "in_risk_level attrs_nan = NaN
   \<and> \<not> in_unit_interval NaN
   \<and> validate_risk_level NaN = Inr NaN
   \<and> create_fire_risk_zone_endpoint example_db 9000 admin_user attrs_nan
       = (Inr \<lparr> zone_id = 4, region_name = ''Pine Hills'', latitude = 34, longitude = - 118,
                risk_level = NaN, risk_category = ''High'', timestamp = 9000,
                temperature = None, humidity = None, wind_speed = None, precipitation = None,
                vegetation_density = None, vegetation_type = None, soil_moisture = None,
                prediction_model = ''DemoRandomModel'', confidence_score = 9 / 10 \<rparr>,
          example_db\<lparr> fire_risk_zones := [zone_a, zone_b, zone_c,
              \<lparr> zone_id = 4, region_name = ''Pine Hills'', latitude = 34, longitude = - 118,
                risk_level = NaN, risk_category = ''High'', timestamp = 9000,
                temperature = None, humidity = None, wind_speed = None, precipitation = None,
                vegetation_density = None, vegetation_type = None, soil_moisture = None,
                prediction_model = ''DemoRandomModel'', confidence_score = 9 / 10 \<rparr>] \<rparr>)"
  by (simp add: create_fire_risk_zone_endpoint_def validate_FireRiskZoneCreate_accepts
      create_fire_risk_zone_def Let_def admin_user_def attrs_nan_def attrs_high_def
      example_db_def next_id_def zone_a_def zone_b_def zone_c_def
      validate_risk_level_def in_unit_interval_def)

text \<open>
  C9. Deleting an id that is not stored: the service functions for zones and for saved
  regions return \<^verbatim>\<open>False\<close>, the endpoints answer 404 (the zone endpoint answers 403 to a
  caller who is not a superuser, before any lookup), and the store is unchanged in every
  case; none of them reports success.
\<close>

theorem delete_missing_id_not_found:
  "(zid \<notin> zone_id ` set (fire_risk_zones db) \<longrightarrow>
      delete_fire_risk_zone db zid = (False, db)
      \<and> delete_fire_risk_zone_endpoint db u zid
          = (Inl (HTTPException (if is_superuser u then 404 else 403)), db))
   \<and> (rid \<notin> region_id ` set (saved_regions db) \<longrightarrow>
      delete_saved_region db rid = (False, db)
      \<and> delete_saved_region_endpoint db u rid = (Inl (HTTPException 404), db))"
proof -
  have z: "get_fire_risk_zone db zid = None" if "zid \<notin> zone_id ` set (fire_risk_zones db)"
    using that by (auto simp: get_fire_risk_zone_def query_first_filter_None)
  have r: "query_first (filter (\<lambda>r. region_id r = rid) (saved_regions db)) = None"
    if "rid \<notin> region_id ` set (saved_regions db)"
    using that by (auto simp: query_first_filter_None)
  show ?thesis
    using z r
    by (simp add: delete_fire_risk_zone_def delete_fire_risk_zone_endpoint_def
        delete_saved_region_def delete_saved_region_endpoint_def)
qed

text \<open>
  Id 42 is neither a zone nor a saved region of the example store.
\<close>

theorem delete_missing_id_not_found_witness:
  "delete_fire_risk_zone example_db 42 = (False, example_db)
   \<and> delete_fire_risk_zone_endpoint example_db admin_user 42
       = (Inl (HTTPException 404), example_db)
   \<and> delete_saved_region example_db 42 = (False, example_db)
   \<and> delete_saved_region_endpoint example_db owner_user 42
       = (Inl (HTTPException 404), example_db)"
proof -
  have z: "42 \<notin> zone_id ` set (fire_risk_zones example_db)"
    by (simp add: example_db_def zone_a_def zone_b_def zone_c_def)
  have r: "42 \<notin> region_id ` set (saved_regions example_db)"
    by (simp add: example_db_def region_1_def region_2_def region_3_def)
  have su: "is_superuser admin_user" by (simp add: admin_user_def)
  from delete_missing_id_not_found[of 42 example_db admin_user 42] z r su
  have a: "delete_fire_risk_zone example_db 42 = (False, example_db)
   \<and> delete_fire_risk_zone_endpoint example_db admin_user 42
       = (Inl (HTTPException 404), example_db)
   \<and> delete_saved_region example_db 42 = (False, example_db)" by simp
  from delete_missing_id_not_found[of 42 example_db owner_user 42] r
  have b: "delete_saved_region_endpoint example_db owner_user 42
       = (Inl (HTTPException 404), example_db)" by simp
  from a b show ?thesis by simp
qed

text \<open>
  C6. Deleting a stored saved region (keys are unique): when the requester is neither the
  owner nor a superuser the endpoint answers 403 and the store is unchanged; when the
  requester is the owner or a superuser it reports success and the store is the old one
  with exactly that region removed.
\<close>

theorem delete_saved_region_authorization:
  assumes "distinct (map region_id (saved_regions db))" and "r \<in> set (saved_regions db)"
  shows "(region_user_id r \<noteq> user_id u \<and> \<not> is_superuser u \<longrightarrow>
            delete_saved_region_endpoint db u (region_id r) = (Inl (HTTPException 403), db))
       \<and> (region_user_id r = user_id u \<or> is_superuser u \<longrightarrow>
            delete_saved_region_endpoint db u (region_id r)
              = (Inr ''Saved region deleted successfully'',
                 db\<lparr> saved_regions := remove1 r (saved_regions db) \<rparr>)
            \<and> r \<notin> set (remove1 r (saved_regions db)))"
proof -
  have found: "query_first (filter (\<lambda>x. region_id x = region_id r) (saved_regions db)) = Some r"
    using filter_key_eq_distinct[OF assms] by (simp add: query_first_def)
  have rest: "filter (\<lambda>x. region_id x \<noteq> region_id r) (saved_regions db)
                = remove1 r (saved_regions db)"
    using assms by (rule filter_key_neq_distinct)
  have svc: "delete_saved_region db (region_id r)
               = (True, db\<lparr> saved_regions := remove1 r (saved_regions db) \<rparr>)"
    by (simp add: delete_saved_region_def found rest)
  from assms(1) have "distinct (saved_regions db)" by (simp add: distinct_map)
  then have gone: "r \<notin> set (remove1 r (saved_regions db))" by simp
  show ?thesis
    using gone by (auto simp: delete_saved_region_endpoint_def found svc)
qed

text \<open>
  User 9 may not delete region 2 of user 8; user 7 deletes the own region 1; the superuser
  deletes region 2.
\<close>

theorem delete_saved_region_authorization_witness:
  "delete_saved_region_endpoint example_db other_user 2 = (Inl (HTTPException 403), example_db)
   \<and> delete_saved_region_endpoint example_db owner_user 1
       = (Inr ''Saved region deleted successfully'',
          example_db\<lparr> saved_regions := [region_2, region_3] \<rparr>)
   \<and> delete_saved_region_endpoint example_db admin_user 2
       = (Inr ''Saved region deleted successfully'',
          example_db\<lparr> saved_regions := [region_1, region_3] \<rparr>)"
proof -
  have d: "distinct (map region_id (saved_regions example_db))"
    by (simp add: example_db_def region_1_def region_2_def region_3_def)
  have m1: "region_1 \<in> set (saved_regions example_db)"
    and m2: "region_2 \<in> set (saved_regions example_db)"
    by (simp_all add: example_db_def)
  have ne: "region_1 \<noteq> region_2"
    by (simp add: region_1_def region_2_def)
  have a: "delete_saved_region_endpoint example_db other_user 2
             = (Inl (HTTPException 403), example_db)"
    using delete_saved_region_authorization[OF d m2, of other_user]
    by (simp add: region_2_def other_user_def)
  have b: "delete_saved_region_endpoint example_db owner_user 1
       = (Inr ''Saved region deleted successfully'',
          example_db\<lparr> saved_regions := [region_2, region_3] \<rparr>)"
    using delete_saved_region_authorization[OF d m1, of owner_user]
    by (simp add: region_1_def owner_user_def example_db_def)
  have c: "delete_saved_region_endpoint example_db admin_user 2
       = (Inr ''Saved region deleted successfully'',
          example_db\<lparr> saved_regions := [region_1, region_3] \<rparr>)"
    using delete_saved_region_authorization[OF d m2, of admin_user] ne
    by (simp add: region_2_def admin_user_def example_db_def)
  from a b c show ?thesis by simp
qed




text \<open>
  C7. When some stored zone within the default box of 0.01 degrees around the request's
  coordinates is less than one hour old, the prediction returns a stored zone of that box
  that is at least as recent, and the store is returned as it was: no zone and no alert is
  created, whatever the risk level and the user's threshold. When that zone is the single
  most recent one of the box, it is the zone returned.
\<close>

theorem predict_returns_recent_zone:
  assumes "z \<in> set (fire_risk_zones db)"
    and "zone_box_contains z default_tolerance lat lon"
    and "timestamp z > now - one_hour"
  shows "(\<exists>z'. predict_fire_risk_zone fmt db now rnd u lat lon request_region_name = (Inr z', db)
            \<and> z' \<in> set (fire_risk_zones db)
            \<and> zone_box_contains z' default_tolerance lat lon
            \<and> timestamp z \<le> timestamp z'
            \<and> timestamp z' > now - one_hour)
       \<and> ((\<forall>y \<in> set (fire_risk_zones db).
              zone_box_contains y default_tolerance lat lon \<longrightarrow> y = z \<or> timestamp y < timestamp z)
            \<longrightarrow> predict_fire_risk_zone fmt db now rnd u lat lon request_region_name = (Inr z, db))"
proof -
  let ?cands = "filter (\<lambda>z. zone_box_contains z default_tolerance lat lon) (fire_risk_zones db)"
  have def: "get_fire_risk_zone_by_coords db lat lon default_tolerance
               = query_first (query_order_by_desc timestamp ?cands)"
    by (simp add: get_fire_risk_zone_by_coords_def box_filter_iff)
  from assms have zc: "z \<in> set ?cands" by simp
  from length_pos_if_in_set[OF zc] have "?cands \<noteq> []"
    by simp
  then have "query_first (query_order_by_desc timestamp ?cands) \<noteq> None"
    by (simp add: query_first_desc_None)
  then obtain z' where z': "query_first (query_order_by_desc timestamp ?cands) = Some z'"
    by auto
  from query_first_desc_Some[OF z']
  have mem: "z' \<in> set ?cands" and top: "\<forall>y \<in> set ?cands. timestamp y \<le> timestamp z'"
    by auto
  from top zc have le: "timestamp z \<le> timestamp z'" by blast
  with assms(3) have recent: "timestamp z' > now - one_hour" by simp
  have res: "predict_fire_risk_zone fmt db now rnd u lat lon request_region_name = (Inr z', db)"
    using recent by (simp add: predict_fire_risk_zone_def def z')
  have uniq: "z' = z"
    if "\<forall>y \<in> set (fire_risk_zones db).
              zone_box_contains y default_tolerance lat lon \<longrightarrow> y = z \<or> timestamp y < timestamp z"
    using that mem le by fastforce
  from res mem le recent uniq show ?thesis by auto
qed

text \<open>
  At (10, 20) the example store holds \<open>zone_b\<close>, stamped 5000; a request at time 6000
  returns it and changes nothing.
\<close>

theorem predict_returns_recent_zone_witness:
  "predict_fire_risk_zone (\<lambda>x. ''0.00'') example_db 6000 draws other_user 10 20 None
     = (Inr zone_b, example_db)"
proof -
  have m: "zone_b \<in> set (fire_risk_zones example_db)" by (simp add: example_db_def)
  have b: "zone_box_contains zone_b default_tolerance 10 20"
    by (simp add: zone_box_contains_def zone_b_def default_tolerance_def)
  have r: "timestamp zone_b > 6000 - one_hour" by (simp add: zone_b_def one_hour_def)
  have u: "\<forall>y \<in> set (fire_risk_zones example_db).
              zone_box_contains y default_tolerance 10 20 \<longrightarrow> y = zone_b \<or> timestamp y < timestamp zone_b"
    by (simp add: example_db_def zone_box_contains_def zone_a_def zone_b_def zone_c_def
        default_tolerance_def)
  from predict_returns_recent_zone[OF m b r, of "\<lambda>x. ''0.00''" draws other_user None] u
  show ?thesis by blast
qed

text \<open>
  C4. The full zone listing holds exactly the stored zones that pass the filters (each as
  often as it is stored), where a bound on the risk level applies when given, the category
  applies when given and not empty, and the region filter, when given and not empty, is
  the case-insensitive pattern match \<^verbatim>\<open>%region_name%\<close>; the listing is sorted by risk level
  descending; a page is \<^verbatim>\<open>limit\<close> rows of the full listing after the first \<^verbatim>\<open>skip\<close>. For a
  region filter without \<^verbatim>\<open>%\<close> and \<^verbatim>\<open>_\<close> the pattern match is containment of the filter as a
  substring, after lowering the case of both strings.
\<close>

theorem get_fire_risk_zones_filtered_sorted_page:
  "mset (get_fire_risk_zones db 0 (length (fire_risk_zones db)) mn mx name cat)
     = filter_mset (zone_passes mn mx name cat) (mset (fire_risk_zones db))
   \<and> sorted_wrt (\<lambda>a b. risk_level a \<ge> risk_level b)
         (get_fire_risk_zones db 0 (length (fire_risk_zones db)) mn mx name cat)
   \<and> get_fire_risk_zones db skip limit mn mx name cat
       = take limit (drop skip
           (get_fire_risk_zones db 0 (length (fire_risk_zones db)) mn mx name cat))
   \<and> (\<forall>n z. name = Some n \<and> CHR ''%'' \<notin> set n \<and> CHR ''_'' \<notin> set n \<longrightarrow>
          zone_passes mn mx name cat z
            = (zone_passes mn mx None cat z
               \<and> is_substring (map lower_char n) (map lower_char (region_name z))))"
proof -
  let ?sel = "filter (zone_passes mn mx name cat) (fire_risk_zones db)"
  let ?sorted = "query_order_by_desc risk_level ?sel"
  have "length ?sorted \<le> length (fire_risk_zones db)"
    by (simp add: length_query_order_by_desc)
  then have full: "get_fire_risk_zones db 0 (length (fire_risk_zones db)) mn mx name cat = ?sorted"
    by (simp add: get_fire_risk_zones_pipeline)
  have page: "get_fire_risk_zones db skip limit mn mx name cat = take limit (drop skip ?sorted)"
    by (rule get_fire_risk_zones_pipeline)
  have ms: "mset ?sorted = filter_mset (zone_passes mn mx name cat) (mset (fire_risk_zones db))"
    by (simp add: mset_query_order_by_desc)
  have srt: "sorted_wrt (\<lambda>a b. risk_level a \<ge> risk_level b) ?sorted"
    by (rule sorted_desc_sort_key)
  have sub: "zone_passes mn mx (Some n) cat z
               = (zone_passes mn mx None cat z
                  \<and> is_substring (map lower_char n) (map lower_char (region_name z)))"
    if "CHR ''%'' \<notin> set n" "CHR ''_'' \<notin> set n" for n z
  proof (cases "n = []")
    case True
    then show ?thesis by (simp add: zone_passes_def is_substring_empty)
  next
    case False
    then show ?thesis
      by (auto simp: zone_passes_def ilike_contains_substring[OF that])
  qed
  show ?thesis
    unfolding full using page ms srt sub by blast
qed

text \<open>
  With a minimum risk level of 0.4 the example store lists \<open>zone_b\<close> (0.85) before \<open>zone_c\<close>
  (0.5); the page with skip 1 and limit 1 is \<open>zone_c\<close>.
\<close>

theorem get_fire_risk_zones_filtered_sorted_page_witness:
  "get_fire_risk_zones example_db 0 3 (Some (4 / 10)) None None None = [zone_b, zone_c]
   \<and> get_fire_risk_zones example_db 1 1 (Some (4 / 10)) None None None = [zone_c]"
proof -
  have len: "length (fire_risk_zones example_db) = 3" by (simp add: example_db_def)
  have full: "get_fire_risk_zones example_db 0 3 (Some (4 / 10)) None None None = [zone_b, zone_c]"
    by (simp add: get_fire_risk_zones_def Let_def query_limit_def query_offset_def
        query_order_by_desc_def example_db_def zone_a_def zone_b_def zone_c_def)
  from get_fire_risk_zones_filtered_sorted_page[of example_db "Some (4 / 10)" None None None 1 1]
  have "get_fire_risk_zones example_db 1 1 (Some (4 / 10)) None None None
          = take 1 (drop 1 (get_fire_risk_zones example_db 0 3 (Some (4 / 10)) None None None))"
    unfolding len by blast
  with full show ?thesis by simp
qed

text \<open>
  The region filter is not substring containment: the filter \<^verbatim>\<open>a_c\<close> selects the zone named
  \<^verbatim>\<open>abc\<close>, in which it does not occur.
\<close>

theorem get_fire_risk_zones_pattern_counterexample:
  "get_fire_risk_zones example_db 0 10 None None (Some ''a_c'') None = [zone_b]
   \<and> \<not> is_substring ''a_c'' (region_name zone_b)"
  by (simp add: get_fire_risk_zones_def Let_def query_limit_def query_offset_def
      query_order_by_desc_def example_db_def zone_a_def zone_b_def zone_c_def
      ilike_def contains_pattern_def lower_char_def)

text \<open>
  C5. With unique zone keys, the full incident listing holds exactly the stored incidents
  that pass the filters: the start-date bounds that are given, the status and the severity
  when given and not empty, and, for a region filter that is given and not empty, the
  existence of a stored zone with the incident's \<^verbatim>\<open>risk_zone_id\<close> whose region name matches
  the pattern. The listing is sorted by start date descending, a page is \<^verbatim>\<open>limit\<close> rows of
  it after the first \<^verbatim>\<open>skip\<close>, and under a region filter that is not empty an incident
  whose \<^verbatim>\<open>risk_zone_id\<close> matches no zone is in no page.
\<close>

theorem get_fire_incidents_filtered_sorted_page:
  assumes "distinct (map zone_id (fire_risk_zones db))"
  shows "mset (get_fire_incidents db 0 (length (fire_incidents db)) name df dt st sv)
           = filter_mset (incident_passes db name df dt st sv) (mset (fire_incidents db))
       \<and> sorted_wrt (\<lambda>a b. start_date a \<ge> start_date b)
           (get_fire_incidents db 0 (length (fire_incidents db)) name df dt st sv)
       \<and> get_fire_incidents db skip limit name df dt st sv
           = take limit (drop skip
               (get_fire_incidents db 0 (length (fire_incidents db)) name df dt st sv))
       \<and> (\<forall>n i. name = Some n \<and> n \<noteq> []
                  \<and> risk_zone_id i \<notin> zone_id ` set (fire_risk_zones db)
              \<longrightarrow> i \<notin> set (get_fire_incidents db skip limit name df dt st sv))"
proof -
  let ?sel = "filter (incident_passes db name df dt st sv) (fire_incidents db)"
  let ?sorted = "query_order_by_desc start_date ?sel"
  have "length ?sorted \<le> length (fire_incidents db)"
    by (simp add: length_query_order_by_desc)
  then have full: "get_fire_incidents db 0 (length (fire_incidents db)) name df dt st sv = ?sorted"
    by (simp add: get_fire_incidents_pipeline[OF assms])
  have page: "get_fire_incidents db skip limit name df dt st sv = take limit (drop skip ?sorted)"
    by (rule get_fire_incidents_pipeline[OF assms])
  have ms: "mset ?sorted = filter_mset (incident_passes db name df dt st sv) (mset (fire_incidents db))"
    by (simp add: mset_query_order_by_desc)
  have srt: "sorted_wrt (\<lambda>a b. start_date a \<ge> start_date b) ?sorted"
    by (rule sorted_desc_sort_key)
  have excl: "i \<notin> set (take limit (drop skip ?sorted))"
    if "name = Some n" "n \<noteq> []" "risk_zone_id i \<notin> zone_id ` set (fire_risk_zones db)" for n i
  proof
    assume "i \<in> set (take limit (drop skip ?sorted))"
    then have "i \<in> set ?sorted" by (meson in_set_dropD in_set_takeD)
    then have "incident_passes db name df dt st sv i"
      by (simp add: set_query_order_by_desc)
    with that(1,2) obtain z where "z \<in> set (fire_risk_zones db)" "zone_id z = risk_zone_id i"
      by (auto simp: incident_passes_def)
    then have "risk_zone_id i \<in> zone_id ` set (fire_risk_zones db)" by (metis image_eqI)
    with that(3) show False by simp
  qed
  show ?thesis
    unfolding full page using ms srt excl by blast
qed

text \<open>
  The region filter \<^verbatim>\<open>ri\<close> matches only \<^verbatim>\<open>North Ridge\<close>, the zone of the first incident; the
  second incident, whose zone is not stored, is left out. Without filters the incidents
  come latest first.
\<close>

theorem get_fire_incidents_filtered_sorted_page_witness:
  "get_fire_incidents example_db 0 3 (Some ''ri'') None None None None = [incident_1]
   \<and> get_fire_incidents example_db 1 1 None None None None None = [incident_3]
   \<and> incident_2 \<notin> set (get_fire_incidents example_db 0 3 (Some ''ri'') None None None None)"
proof -
  have d: "distinct (map zone_id (fire_risk_zones example_db))"
    by (simp add: example_db_def zone_a_def zone_b_def zone_c_def)
  have len: "length (fire_incidents example_db) = 3" by (simp add: example_db_def)
  have a: "get_fire_incidents example_db 0 3 (Some ''ri'') None None None None = [incident_1]"
    by (simp add: get_fire_incidents_def Let_def query_limit_def query_offset_def
        query_order_by_desc_def example_db_def zone_a_def zone_b_def zone_c_def
        incident_1_def incident_2_def incident_3_def
        ilike_def contains_pattern_def lower_char_def)
  have full: "get_fire_incidents example_db 0 3 None None None None None
                = [incident_2, incident_3, incident_1]"
    by (simp add: get_fire_incidents_def Let_def query_limit_def query_offset_def
        query_order_by_desc_def example_db_def
        incident_1_def incident_2_def incident_3_def)
  from get_fire_incidents_filtered_sorted_page[OF d, of None None None None None 1 1]
  have "get_fire_incidents example_db 1 1 None None None None None
          = take 1 (drop 1 (get_fire_incidents example_db 0 3 None None None None None))"
    unfolding len by blast
  moreover have "risk_zone_id incident_2 \<notin> zone_id ` set (fire_risk_zones example_db)"
    by (simp add: example_db_def zone_a_def zone_b_def zone_c_def incident_2_def)
  with get_fire_incidents_filtered_sorted_page[OF d, of "Some ''ri''" None None None None 0 3]
  have "incident_2 \<notin> set (get_fire_incidents example_db 0 3 (Some ''ri'') None None None None)"
    by blast
  ultimately show ?thesis using full a by simp
qed

text \<open>
  A region filter that is given but empty does not join: the incident whose
  \<^verbatim>\<open>risk_zone_id\<close> matches no stored zone is listed.
\<close>

theorem get_fire_incidents_empty_region_counterexample:
  "incident_2 \<in> set (get_fire_incidents example_db 0 10 (Some '''') None None None None)
   \<and> risk_zone_id incident_2 \<notin> zone_id ` set (fire_risk_zones example_db)"
  by (simp add: get_fire_incidents_def Let_def query_limit_def query_offset_def
      query_order_by_desc_def example_db_def zone_a_def zone_b_def zone_c_def
      incident_1_def incident_2_def incident_3_def)

end
